theory Spec2Isabelle
  imports Complex_Main
begin

section \<open>Wire data\<close>

text \<open>
  The server answers each frame with one JSON text. The client never validates it: it
  reads \<open>face_detected\<close>, \<open>hat\<close> and \<open>error\<close> off whatever \<open>JSON.parse\<close> returned, and
  \<open>position\<close>, \<open>rotation\<close>, \<open>scale\<close> and \<open>modelType\<close> off whatever \<open>hat\<close> was.
  Numbers are IEEE doubles in the browser; the model computes with \<open>real\<close>.
\<close>

datatype vec3 = Vec3 (vx: real) (vy: real) (vz: real)

text \<open>A complete pose, as the frame callback of \<open>HatModel\<close> needs it.\<close>

record hat_pose =
  position :: vec3
  rotation :: vec3
  scale :: real
  modelType :: "string option"

text \<open>
  The \<open>hat\<close> field as it arrives and as \<open>setHatPose\<close> stores it: each part may be
  missing (\<open>None\<close> is JavaScript's \<open>undefined\<close>). A vector that lacks a coordinate, or
  has one that is not a number, counts as a missing vector: the render of \<open>HatScene\<close>
  raises the same \<open>TypeError\<close> on both. A truthy \<open>hat\<close> that is not an object is the
  payload with every part missing; a \<open>modelType\<close> that is not a string selects a preset
  like an unknown string does.
\<close>

record hat_payload =
  hat_position :: "vec3 option"
  hat_rotation :: "vec3 option"
  hat_scale :: "real option"
  hat_modelType :: "string option"

definition complete :: "hat_payload \<Rightarrow> hat_pose option" where
  "complete raw =
     (case hat_position raw of
        None \<Rightarrow> None
      | Some p \<Rightarrow>
          (case hat_rotation raw of
             None \<Rightarrow> None
           | Some r \<Rightarrow>
               (case hat_scale raw of
                  None \<Rightarrow> None
                | Some k \<Rightarrow>
                    Some \<lparr> position = p, rotation = r, scale = k,
                           modelType = hat_modelType raw \<rparr>)))"

definition payload_of :: "hat_pose \<Rightarrow> hat_payload" where
  "payload_of p = \<lparr> hat_position = Some (position p), hat_rotation = Some (rotation p),
     hat_scale = Some (scale p), hat_modelType = modelType p \<rparr>"

text \<open>
  A message object. Every field is optional. Only the truthiness of \<open>face_detected\<close> is
  ever used, so it is a boolean when present; a \<open>hat\<close> that is falsy (\<open>null\<close>, 0,
  \<open>false\<close>, the empty string) acts as an absent one.
\<close>

record pose_message =
  face_detected :: "bool option"
  hat :: "hat_payload option"
  error_text :: "string option"

text \<open>
  What \<open>JSON.parse(event.data)\<close> does with an inbound text: it throws a \<open>SyntaxError\<close>;
  or it returns \<open>null\<close>; or it returns one of the other falsy values, 0, \<open>false\<close> or the
  empty string; or it returns an object. A truthy value that is not an object (a number
  other than 0, a non-empty string, \<open>true\<close>, an array) has none of the three fields and is
  the object without fields.
\<close>

datatype inbound = Undecodable | JsonNull | JsonFalsy | JsonObject pose_message

type_synonym bytes = "nat list"

section \<open>The useWebSocket hook\<close>

definition RECONNECT_DELAY :: nat where
  "RECONNECT_DELAY = 3000"

definition MAX_RECONNECT_ATTEMPTS :: nat where
  "MAX_RECONNECT_ATTEMPTS = 5"

datatype readyState = CONNECTING | OPEN | CLOSING | CLOSED

text \<open>The four texts \<open>setError\<close> is called with; the first carries the delay in ms and
  the attempt number shown to the user.\<close>

datatype ws_error =
    ConnectionLost nat nat
  | FailedToConnect
  | ConnectionError
  | FailedToCreate

text \<open>
  The hook's React state and refs, followed by the part of the browser it acts on: every
  \<open>WebSocket\<close> created so far with its \<open>readyState\<close> (a socket is its index in
  \<open>sockets\<close>), the \<open>close\<close> calls made, the pending \<open>setTimeout\<close> callbacks as
  (handle, delay in ms), the blobs whose \<open>arrayBuffer()\<close> promise has not settled yet, and
  the buffers written with \<open>send\<close>.
\<close>

record ws_hook =
  isConnected :: bool
  isConnecting :: bool
  error :: "ws_error option"
  lastMessage :: "pose_message option"
  wsRef :: "nat option"
  reconnectTimeoutRef :: "nat option"
  reconnectAttemptsRef :: nat
  sockets :: "readyState list"
  closeCalls :: "(nat \<times> nat) list"
  timers :: "(nat \<times> nat) list"
  nextTimer :: nat
  converting :: "bytes list"
  sent :: "(nat \<times> bytes) list"

definition initial_hook :: ws_hook where
  "initial_hook = \<lparr> isConnected = False, isConnecting = False, error = None,
     lastMessage = None, wsRef = None, reconnectTimeoutRef = None,
     reconnectAttemptsRef = 0, sockets = [], closeCalls = [], timers = [],
     nextTimer = 1, converting = [], sent = [] \<rparr>"

definition readyState_of :: "ws_hook \<Rightarrow> nat \<Rightarrow> readyState option" where
  "readyState_of st s = (if s < length (sockets st) then Some (sockets st ! s) else None)"

text \<open>\<open>wsRef.current?.readyState === WebSocket.OPEN\<close>\<close>

definition ws_open :: "ws_hook \<Rightarrow> bool" where
  "ws_open st = (case wsRef st of None \<Rightarrow> False | Some s \<Rightarrow> readyState_of st s = Some OPEN)"

text \<open>
  \<open>connect\<close>. The flag \<open>throws\<close> says whether \<open>new WebSocket(url)\<close> raises; the
  \<open>catch\<close> branch is the first branch of the inner \<open>if\<close>.
\<close>

definition connect :: "bool \<Rightarrow> ws_hook \<Rightarrow> ws_hook" where
  "connect throws st =
     (if ws_open st then st
      else if throws
        then st\<lparr> error := Some FailedToCreate, isConnecting := False \<rparr>
        else st\<lparr> isConnecting := True, error := None,
                 wsRef := Some (length (sockets st)),
                 sockets := sockets st @ [CONNECTING] \<rparr>)"

definition onopen :: "ws_hook \<Rightarrow> ws_hook" where
  "onopen st = st\<lparr> isConnected := True, isConnecting := False, error := None,
                    reconnectAttemptsRef := 0 \<rparr>"

text \<open>
  \<open>ws.onmessage\<close>: a \<open>SyntaxError\<close> is caught before \<open>setLastMessage\<close> runs; for
  \<open>null\<close> the state is set and then \<open>message.error\<close> raises a \<open>TypeError\<close>, which the
  same \<open>catch\<close> swallows; for 0, \<open>false\<close> and the empty string the state is set and
  \<open>message.error\<close> is \<open>undefined\<close>. All that is ever read off \<open>lastMessage\<close> is
  whether it is truthy and, if so, its fields: \<open>None\<close> stands for \<open>null\<close> and for the
  other falsy values. Console output is not part of the state.
\<close>

definition onmessage :: "inbound \<Rightarrow> ws_hook \<Rightarrow> ws_hook" where
  "onmessage d st =
     (case d of
        Undecodable \<Rightarrow> st
      | JsonNull \<Rightarrow> st\<lparr> lastMessage := None \<rparr>
      | JsonFalsy \<Rightarrow> st\<lparr> lastMessage := None \<rparr>
      | JsonObject m \<Rightarrow> st\<lparr> lastMessage := Some m \<rparr>)"

definition onclose :: "nat \<Rightarrow> ws_hook \<Rightarrow> ws_hook" where
  "onclose code st =
     (let st1 = st\<lparr> isConnected := False, isConnecting := False, wsRef := None \<rparr> in
      if code \<noteq> 1000 \<and> reconnectAttemptsRef st1 < MAX_RECONNECT_ATTEMPTS then
        (let delay = RECONNECT_DELAY * 2 ^ reconnectAttemptsRef st1 in
         st1\<lparr> error := Some (ConnectionLost delay (reconnectAttemptsRef st1 + 1)),
              reconnectTimeoutRef := Some (nextTimer st1),
              timers := timers st1 @ [(nextTimer st1, delay)],
              nextTimer := Suc (nextTimer st1) \<rparr>)
      else if MAX_RECONNECT_ATTEMPTS \<le> reconnectAttemptsRef st1 then
        st1\<lparr> error := Some FailedToConnect \<rparr>
      else st1)"

definition onerror :: "ws_hook \<Rightarrow> ws_hook" where
  "onerror st = st\<lparr> error := Some ConnectionError, isConnecting := False \<rparr>"

text \<open>The callback handed to \<open>setTimeout\<close> in \<open>onclose\<close>.\<close>

definition reconnect_callback :: "bool \<Rightarrow> ws_hook \<Rightarrow> ws_hook" where
  "reconnect_callback throws st =
     connect throws (st\<lparr> reconnectAttemptsRef := Suc (reconnectAttemptsRef st) \<rparr>)"

text \<open>The browser runs a pending timer: it leaves the pending list and its callback runs.
  A handle that is not pending (fired or cleared) does nothing.\<close>

definition timer_fires :: "nat \<Rightarrow> bool \<Rightarrow> ws_hook \<Rightarrow> ws_hook" where
  "timer_fires t throws st =
     (if t \<in> fst ` set (timers st)
      then reconnect_callback throws (st\<lparr> timers := filter (\<lambda>p. fst p \<noteq> t) (timers st) \<rparr>)
      else st)"

text \<open>\<open>clearTimeout\<close>. Handles are positive numbers, so \<open>if (reconnectTimeoutRef.current)\<close>
  in \<open>disconnect\<close> is the test for a handle.\<close>

definition clearTimeout :: "nat \<Rightarrow> (nat \<times> nat) list \<Rightarrow> (nat \<times> nat) list" where
  "clearTimeout t ts = filter (\<lambda>p. fst p \<noteq> t) ts"

text \<open>\<open>ws.close(code)\<close>: a socket that is connecting or open starts closing; one that is
  closing or closed stays as it is.\<close>

definition ws_close_call :: "nat \<Rightarrow> readyState list \<Rightarrow> readyState list" where
  "ws_close_call s socks =
     (if s < length socks \<and> (socks ! s = CONNECTING \<or> socks ! s = OPEN)
      then socks[s := CLOSING] else socks)"

definition disconnect :: "ws_hook \<Rightarrow> ws_hook" where
  "disconnect st =
     (let st1 = (case reconnectTimeoutRef st of
                   None \<Rightarrow> st
                 | Some t \<Rightarrow> st\<lparr> timers := clearTimeout t (timers st),
                                 reconnectTimeoutRef := None \<rparr>);
          st2 = (case wsRef st1 of
                   None \<Rightarrow> st1
                 | Some s \<Rightarrow> st1\<lparr> sockets := ws_close_call s (sockets st1),
                                  closeCalls := closeCalls st1 @ [(s, 1000)],
                                  wsRef := None \<rparr>)
      in st2\<lparr> isConnected := False, isConnecting := False, error := None,
              reconnectAttemptsRef := 0 \<rparr>)"

text \<open>
  \<open>sendFrame\<close> is a \<open>useCallback\<close> over \<open>[connect, isConnecting]\<close>: the value of
  \<open>isConnecting\<close> it tests is the one of the render that created the callback, passed
  here as \<open>seenConnecting\<close>. An open socket starts the blob's conversion; the \<open>then\<close>
  and \<open>catch\<close> continuations are \<open>arrayBuffer_resolved\<close> and \<open>arrayBuffer_rejected\<close>.
\<close>

definition sendFrame :: "bool \<Rightarrow> bool \<Rightarrow> bytes \<Rightarrow> ws_hook \<Rightarrow> ws_hook" where
  "sendFrame seenConnecting throws imageData st =
     (if ws_open st then st\<lparr> converting := converting st @ [imageData] \<rparr>
      else if \<not> seenConnecting then connect throws st
      else st)"

definition remove_nth :: "nat \<Rightarrow> 'a list \<Rightarrow> 'a list" where
  "remove_nth i xs = take i xs @ drop (Suc i) xs"

definition arrayBuffer_resolved :: "nat \<Rightarrow> ws_hook \<Rightarrow> ws_hook" where
  "arrayBuffer_resolved i st =
     (if i < length (converting st) then
        (let buffer = converting st ! i;
             st1 = st\<lparr> converting := remove_nth i (converting st) \<rparr>
         in case wsRef st1 of
              None \<Rightarrow> st1
            | Some s \<Rightarrow> if readyState_of st1 s = Some OPEN
                        then st1\<lparr> sent := sent st1 @ [(s, buffer)] \<rparr>
                        else st1)
      else st)"

definition arrayBuffer_rejected :: "nat \<Rightarrow> ws_hook \<Rightarrow> ws_hook" where
  "arrayBuffer_rejected i st =
     (if i < length (converting st)
      then st\<lparr> converting := remove_nth i (converting st) \<rparr> else st)"

text \<open>The browser's side of a socket: it opens or closes, and the handler installed by
  \<open>connect\<close> runs. The handlers never look at the socket they belong to.\<close>

definition ws_opens :: "nat \<Rightarrow> ws_hook \<Rightarrow> ws_hook" where
  "ws_opens s st =
     (if readyState_of st s = Some CONNECTING
      then onopen (st\<lparr> sockets := (sockets st)[s := OPEN] \<rparr>) else st)"

definition ws_closes :: "nat \<Rightarrow> nat \<Rightarrow> ws_hook \<Rightarrow> ws_hook" where
  "ws_closes s code st =
     (if s < length (sockets st) \<and> sockets st ! s \<noteq> CLOSED
      then onclose code (st\<lparr> sockets := (sockets st)[s := CLOSED] \<rparr>) else st)"

subsection \<open>Consecutive abnormal closes\<close>

text \<open>The socket held in \<open>wsRef\<close> closes with \<open>code\<close>: the browser's close event on that
  socket. While \<open>wsRef\<close> holds no socket there is nothing that could close.\<close>

definition close_current :: "nat \<Rightarrow> ws_hook \<Rightarrow> ws_hook" where
  "close_current code st = (case wsRef st of None \<Rightarrow> st | Some s \<Rightarrow> ws_closes s code st)"


text \<open>
  One failed round: the current socket closes with \<open>code\<close>; the delays of the timers the
  handler registered are observed; a registered timer then expires and its callback
  reconnects, and nothing else calls \<open>connect\<close> in between. \<open>closes_observed\<close> runs one
  round per close code and collects the delays.
\<close>

definition scheduled_by :: "ws_hook \<Rightarrow> ws_hook \<Rightarrow> (nat \<times> nat) list" where
  "scheduled_by st st' = drop (length (timers st)) (timers st')"

definition after_close :: "nat \<Rightarrow> ws_hook \<Rightarrow> ws_hook" where
  "after_close code st =
     (let st1 = close_current code st in
      case scheduled_by st st1 of
        [] \<Rightarrow> st1
      | p # _ \<Rightarrow> timer_fires (fst p) False st1)"


subsection \<open>Some reachable states of the hook\<close>

text \<open>Connected: \<open>connect()\<close>, then the socket opens.\<close>

definition connected_hook :: ws_hook where
  "connected_hook = ws_opens 0 (connect False initial_hook)"

text \<open>Connected, then disconnected by hand.\<close>

definition closed_hook :: ws_hook where
  "closed_hook = disconnect connected_hook"

text \<open>Connected, then five failed rounds and a sixth abnormal close: sockets 0 to 5 have
  closed and the counter stands at 5.\<close>

definition exhausted_hook :: ws_hook where
  "exhausted_hook =
     close_current 1006 (fold after_close [1006, 1006, 1006, 1006, 1006] connected_hook)"

text \<open>Connected, a frame handed to \<open>sendFrame\<close>, and the connection lost before the
  conversion of the frame has finished.\<close>

definition dropped_hook :: ws_hook where
  "dropped_hook = ws_closes 0 1006 (sendFrame False False [255, 216, 255] connected_hook)"

text \<open>After that, the retry timer expires, its callback connects, and socket 1 opens, all
  before the conversion of the frame has finished.\<close>

definition reopened_hook :: ws_hook where
  "reopened_hook = ws_opens 1 (timer_fires 1 False dropped_hook)"

section \<open>Frame sampling in HatTryOn\<close>

text \<open>
  \<open>lib/frameCapture\<close> is imported by the component but is not among the sources.
  \<open>captureFrameAsBlob\<close> enters the model through its result; \<open>recordFrame\<close> of the
  performance monitor is counted; the rate limiter is modelled from the spec.
\<close>

datatype capture_result = Blob bytes | NoFrame | CaptureThrows

record FrameRateLimiter =
  targetFPS :: real
  lastFrameTime :: real

text \<open>
  Modelled from the spec: \<open>FrameRateLimiter.shouldProcessFrame\<close> of \<open>lib/frameCapture\<close>
  is missing from the sources. Section 4.3 of the spec: a tick is allowed when the
  elapsed time since the last allowed tick is at least \<open>1 / targetRate\<close>; times are in
  milliseconds, so the interval is \<open>1000 / targetFPS\<close>. An allowed tick becomes the last
  allowed tick.
\<close>

definition shouldProcessFrame :: "real \<Rightarrow> FrameRateLimiter \<Rightarrow> bool \<times> FrameRateLimiter" where
  "shouldProcessFrame now l =
     (if 1000 / targetFPS l \<le> now - lastFrameTime l
      then (True, l\<lparr> lastFrameTime := now \<rparr>)
      else (False, l))"

text \<open>The \<open>THREE.Group\<close> behind \<open>meshRef\<close> in \<open>HatModel\<close>: whether the hat model has
  been added to it, and the transform and visibility last written to it.\<close>

record group3d =
  has_model :: bool
  g_position :: vec3
  g_rotation :: vec3
  g_scale :: vec3
  g_visible :: bool

text \<open>
  The component's state: the hook, the video element (\<open>videoRef.current\<close> is set) and
  \<open>isStreaming\<close> of \<open>useWebcam\<close>, its own React state, the limiter, the number of
  \<open>recordFrame\<close> calls, the number of captures awaited, and the hat group of the scene.
  \<open>faceDetected\<close> holds \<open>lastMessage.face_detected\<close> as it came, so it can be
  \<open>undefined\<close> (\<open>None\<close>). In \<open>initial_tryon\<close> the component has been mounted (the
  video element exists) and nothing else has happened; Three.js creates a group visible
  and without children.
\<close>

record hat_tryon =
  hook :: ws_hook
  videoRef :: bool
  isStreaming :: bool
  isProcessing :: bool
  hatPose :: "hat_payload option"
  faceDetected :: "bool option"
  frameRateLimiterRef :: FrameRateLimiter
  framesRecorded :: nat
  capturing :: nat
  hatGroup :: group3d

definition initial_group :: group3d where
  "initial_group = \<lparr> has_model = False, g_position = Vec3 0 0 0, g_rotation = Vec3 0 0 0,
     g_scale = Vec3 1 1 1, g_visible = True \<rparr>"

definition initial_tryon :: hat_tryon where
  "initial_tryon = \<lparr> hook = initial_hook, videoRef = True, isStreaming = False,
     isProcessing = False, hatPose = None, faceDetected = Some False,
     frameRateLimiterRef = \<lparr> targetFPS = 20, lastFrameTime = 0 \<rparr>,
     framesRecorded = 0, capturing = 0, hatGroup = initial_group \<rparr>"

text \<open>
  \<open>processVideoFrame\<close> is a closure of one render: \<open>isStreaming\<close>, \<open>isConnected\<close> and
  \<open>isProcessing\<close> are the values of that render, and so is the \<open>sendFrame\<close> it calls
  (with that render's \<open>isConnecting\<close>). \<open>setInterval\<close> keeps the closure of the render
  in which the effect over \<open>[isStreaming, isConnected]\<close> ran. \<open>videoRef\<close> and the
  limiter are refs and are read as they are at the tick.
\<close>

record render_scope =
  seen_isStreaming :: bool
  seen_isConnected :: bool
  seen_isProcessing :: bool
  seen_isConnecting :: bool

definition scope_of :: "hat_tryon \<Rightarrow> render_scope" where
  "scope_of st = \<lparr> seen_isStreaming = isStreaming st,
     seen_isConnected = isConnected (hook st),
     seen_isProcessing = isProcessing st,
     seen_isConnecting = isConnecting (hook st) \<rparr>"

text \<open>\<open>processVideoFrame\<close> up to its \<open>await\<close>: the result says whether a sample/send
  cycle was started. The guard \<open>!a || !b || !c || d\<close> is evaluated left to right.\<close>

definition processVideoFrame_start :: "render_scope \<Rightarrow> real \<Rightarrow> hat_tryon \<Rightarrow> bool \<times> hat_tryon" where
  "processVideoFrame_start c now st =
     (if \<not> videoRef st then (False, st)
      else if \<not> seen_isStreaming c then (False, st)
      else if \<not> seen_isConnected c then (False, st)
      else if seen_isProcessing c then (False, st)
      else case shouldProcessFrame now (frameRateLimiterRef st) of
             (False, l) \<Rightarrow> (False, st\<lparr> frameRateLimiterRef := l \<rparr>)
           | (True, l) \<Rightarrow>
               (True, st\<lparr> frameRateLimiterRef := l, isProcessing := True,
                          framesRecorded := Suc (framesRecorded st),
                          capturing := Suc (capturing st) \<rparr>))"

text \<open>\<open>processVideoFrame\<close> after the \<open>await\<close>: the capture gave a blob, gave \<open>null\<close> or
  threw; \<open>finally\<close> clears the flag in each case.\<close>

definition processVideoFrame_settle ::
    "render_scope \<Rightarrow> bool \<Rightarrow> capture_result \<Rightarrow> hat_tryon \<Rightarrow> hat_tryon" where
  "processVideoFrame_settle c throws r st =
     (if capturing st = 0 then st
      else
        (let st1 = (case r of
                      Blob frameBlob \<Rightarrow>
                        st\<lparr> hook := sendFrame (seen_isConnecting c) throws frameBlob (hook st) \<rparr>
                    | NoFrame \<Rightarrow> st
                    | CaptureThrows \<Rightarrow> st)
         in st1\<lparr> isProcessing := False, capturing := capturing st - 1 \<rparr>))"

text \<open>The effect over \<open>[lastMessage]\<close>.\<close>

definition lastMessage_effect :: "hat_tryon \<Rightarrow> hat_tryon" where
  "lastMessage_effect st =
     (case lastMessage (hook st) of
        None \<Rightarrow> st
      | Some m \<Rightarrow>
          st\<lparr> faceDetected := face_detected m,
              hatPose := (if face_detected m = Some True then hat m else None) \<rparr>)"

text \<open>A message event on the socket: the handler runs, and a new message object makes
  React run the effect. (For a falsy value the effect's guard \<open>if (lastMessage)\<close> fails,
  so running it changes nothing.)\<close>

definition message_arrives :: "inbound \<Rightarrow> hat_tryon \<Rightarrow> hat_tryon" where
  "message_arrives d st =
     (let st1 = st\<lparr> hook := onmessage d (hook st) \<rparr> in
      case d of
        JsonObject m \<Rightarrow> lastMessage_effect st1
      | Undecodable \<Rightarrow> st1
      | JsonNull \<Rightarrow> st1
      | JsonFalsy \<Rightarrow> st1)"

section \<open>HatModel: applying a pose to the scene\<close>

text \<open>What the frame callback of \<open>HatModel\<close> reads besides its props: whether the group is
  mounted (\<open>meshRef.current\<close>), whether a model has been built (\<open>model\<close>), and whether
  the GLB asset is the one in use (\<open>gltf && gltf.scene\<close>).\<close>

record hat_model_scope =
  mounted :: bool
  model_loaded :: bool
  isGLBModel :: bool

text \<open>\<open>hatPose.modelType || 'default'\<close>\<close>

definition modelType_or_default :: "hat_pose \<Rightarrow> string" where
  "modelType_or_default p =
     (case modelType p of None \<Rightarrow> ''default'' | Some t \<Rightarrow> if t = [] then ''default'' else t)"

text \<open>The vertical offset and the scale multiplier chosen in the callback.\<close>

definition preset :: "bool \<Rightarrow> string \<Rightarrow> real \<times> real" where
  "preset glb t =
     (if glb then
        (if t = ''large_hat'' then (- 1.0, 0.8)
         else if t = ''small_hat'' then (- 0.2, 0.02)
         else (- 0.2, 0.5))
      else (- 0.3, 0.25))"

definition useFrame :: "hat_model_scope \<Rightarrow> hat_pose option \<Rightarrow> bool \<Rightarrow> group3d \<Rightarrow> group3d" where
  "useFrame sc hp visible g =
     (case hp of
        None \<Rightarrow> g
      | Some p \<Rightarrow>
          if mounted sc \<and> visible \<and> model_loaded sc then
            (let x = (vx (position p) - 0.5) * 4;
                 y = (vy (position p) - 0.5) * 3;
                 z = vz (position p);
                 yOffset = fst (preset (isGLBModel sc) (modelType_or_default p));
                 scale' = scale p * snd (preset (isGLBModel sc) (modelType_or_default p));
                 zPosition = max z 0
             in g\<lparr> has_model := True,
                   g_position := Vec3 x (y + yOffset) zPosition,
                   g_rotation := Vec3 (vx (rotation p) * 0.8) (vy (rotation p) * 0.8)
                                      (vz (rotation p) * 0.8),
                   g_scale := Vec3 scale' scale' scale',
                   g_visible := True \<rparr>)
          else g)"

datatype js_error = TypeError

text \<open>
  The render of \<open>HatScene\<close>. It hands \<open>hatPose\<close> and \<open>visible = faceDetected\<close> down to
  \<open>HatModel\<close>, and for a truthy \<open>hatPose\<close> its debug overlay evaluates
  \<open>hatPose.position.x.toFixed(2)\<close> and the like for \<open>position\<close>, \<open>rotation\<close> and
  \<open>scale\<close>: on a payload that lacks one of them this raises a \<open>TypeError\<close> and the
  render returns nothing.
\<close>

definition HatScene_render :: "hat_tryon \<Rightarrow> js_error + hat_pose option \<times> bool" where
  "HatScene_render st =
     (case hatPose st of
        None \<Rightarrow> Inr (None, faceDetected st = Some True)
      | Some raw \<Rightarrow>
          (case complete raw of
             None \<Rightarrow> Inl TypeError
           | Some p \<Rightarrow> Inr (Some p, faceDetected st = Some True)))"

text \<open>
  A frame of the scene: the frame callback of \<open>HatModel\<close> runs on the props that the
  render of \<open>HatScene\<close> hands down. A pose on which that render throws never reaches
  \<open>HatModel\<close>, and the group stays as it is; what React then does with the component is
  not modelled.
\<close>

definition render_frame :: "hat_model_scope \<Rightarrow> hat_tryon \<Rightarrow> hat_tryon" where
  "render_frame sc st =
     (case HatScene_render st of
        Inl e \<Rightarrow> st
      | Inr props \<Rightarrow>
          st\<lparr> hatGroup := useFrame sc (fst props) (snd props) (hatGroup st) \<rparr>)"

section \<open>Events\<close>

text \<open>
  Everything that can happen to the mounted component, one event at a time (the browser
  runs one callback at a time). \<open>Connect\<close> and \<open>Disconnect\<close> are calls of the hook's
  \<open>connect\<close> and \<open>disconnect\<close> from outside it (the mount effect, the button, the
  unmount cleanup); \<open>CameraStarts\<close> is a \<open>startCamera\<close> that got its stream, and
  \<open>CameraStops\<close> is \<open>stopCamera\<close>.
\<close>

datatype event =
    Tick render_scope real
  | CaptureSettles render_scope bool capture_result
  | BufferResolved nat
  | BufferRejected nat
  | SocketOpens nat
  | SocketCloses nat nat
  | SocketError
  | SocketMessage inbound
  | TimerFires nat bool
  | Connect bool
  | Disconnect
  | CameraStarts
  | CameraStops
  | RenderFrame hat_model_scope

definition on_hook :: "(ws_hook \<Rightarrow> ws_hook) \<Rightarrow> hat_tryon \<Rightarrow> hat_tryon" where
  "on_hook f st = st\<lparr> hook := f (hook st) \<rparr>"

fun step :: "event \<Rightarrow> hat_tryon \<Rightarrow> hat_tryon" where
  "step (Tick c now) st = snd (processVideoFrame_start c now st)"
| "step (CaptureSettles c throws r) st = processVideoFrame_settle c throws r st"
| "step (BufferResolved i) st = on_hook (arrayBuffer_resolved i) st"
| "step (BufferRejected i) st = on_hook (arrayBuffer_rejected i) st"
| "step (SocketOpens s) st = on_hook (ws_opens s) st"
| "step (SocketCloses s code) st = on_hook (ws_closes s code) st"
| "step SocketError st = on_hook onerror st"
| "step (SocketMessage d) st = message_arrives d st"
| "step (TimerFires t throws) st = on_hook (timer_fires t throws) st"
| "step (Connect throws) st = on_hook (connect throws) st"
| "step Disconnect st = on_hook disconnect st"
| "step CameraStarts st = (if videoRef st then st\<lparr> isStreaming := True \<rparr> else st)"
| "step CameraStops st = st\<lparr> isStreaming := False \<rparr>"
| "step (RenderFrame sc) st = render_frame sc st"

fun run :: "event list \<Rightarrow> hat_tryon \<Rightarrow> hat_tryon" where
  "run [] st = st"
| "run (e # es) st = run es (step e st)"

text \<open>The times of the ticks that started a sample/send cycle.\<close>

fun accepted :: "event list \<Rightarrow> hat_tryon \<Rightarrow> real list" where
  "accepted [] st = []"
| "accepted (Tick c now # es) st =
     (if fst (processVideoFrame_start c now st) then [now] else []) @ accepted es (step (Tick c now) st)"
| "accepted (e # es) st = accepted es (step e st)"

text \<open>Frames in flight: handed to \<open>sendFrame\<close> on an open socket, their \<open>then\<close> or
  \<open>catch\<close> continuation not run yet.\<close>

definition in_flight :: "hat_tryon \<Rightarrow> nat" where
  "in_flight st = length (converting (hook st))"

text \<open>Successive times at least \<open>d\<close> apart, the first at least \<open>d\<close> after \<open>prev\<close>.\<close>

fun spaced :: "real \<Rightarrow> real \<Rightarrow> real list \<Rightarrow> bool" where
  "spaced d prev [] = True"
| "spaced d prev (a # as) = (prev + d \<le> a \<and> spaced d a as)"

section \<open>Some reachable states of the component\<close>

text \<open>The scope of the render in which the sampling interval is set up: streaming and
  connected, nothing being processed, no connection attempt under way.\<close>

definition tick_scope :: render_scope where
  "tick_scope = \<lparr> seen_isStreaming = True, seen_isConnected = True,
     seen_isProcessing = False, seen_isConnecting = False \<rparr>"

text \<open>The camera is started, \<open>connect()\<close> is called and the socket opens.\<close>

definition streaming_tryon :: hat_tryon where
  "streaming_tryon = run [CameraStarts, Connect False, SocketOpens 0] initial_tryon"

text \<open>A tick at 50 ms starts a cycle; its capture yields a frame, which is handed to
  \<open>sendFrame\<close>. The conversion of that frame does not finish for the time being.\<close>

definition one_handed_over :: hat_tryon where
  "one_handed_over =
     run [Tick tick_scope 50, CaptureSettles tick_scope False (Blob [255, 216, 1])]
       streaming_tryon"

text \<open>The next tick, 50 ms later, and its capture.\<close>

definition two_handed_over :: hat_tryon where
  "two_handed_over =
     run [Tick tick_scope 100, CaptureSettles tick_scope False (Blob [255, 216, 2])]
       one_handed_over"

text \<open>Ticks that come faster than the limiter's interval, with captures that find no
  frame.\<close>

definition fast_ticks :: "event list" where
  "fast_ticks =
     [Tick tick_scope 50, CaptureSettles tick_scope False NoFrame,
      Tick tick_scope 60, Tick tick_scope 99, Tick tick_scope 100,
      CaptureSettles tick_scope False NoFrame, Tick tick_scope 150]"



text \<open>The example pose of the README, and a pose for the \<open>large_hat\<close> preset that lies
  behind the video plane.\<close>

definition sample_pose :: hat_pose where
  "sample_pose = \<lparr> position = Vec3 0.5 0.3 0.05, rotation = Vec3 0.1 (- 0.05) 0.02,
     scale = 1.2, modelType = None \<rparr>"

definition large_pose :: hat_pose where
  "large_pose = \<lparr> position = Vec3 0.5 0.5 (- 0.2), rotation = Vec3 0 0 0,
     scale = 1, modelType = Some ''large_hat'' \<rparr>"

text \<open>Five messages: a face with its pose, no face, the object \<open>{}\<close>, a face without
  the \<open>hat\<close> field, and a face whose \<open>hat\<close> lacks \<open>rotation\<close>.\<close>

definition face_message :: pose_message where
  "face_message =
     \<lparr> face_detected = Some True, hat = Some (payload_of sample_pose), error_text = None \<rparr>"

definition no_face_message :: pose_message where
  "no_face_message = \<lparr> face_detected = Some False, hat = None, error_text = None \<rparr>"

definition empty_message :: pose_message where
  "empty_message = \<lparr> face_detected = None, hat = None, error_text = None \<rparr>"

definition hatless_message :: pose_message where
  "hatless_message = \<lparr> face_detected = Some True, hat = None, error_text = None \<rparr>"

definition incomplete_message :: pose_message where
  "incomplete_message =
     \<lparr> face_detected = Some True,
       hat = Some \<lparr> hat_position = Some (Vec3 0.5 0.3 0.05), hat_rotation = None,
                    hat_scale = Some 1.2, hat_modelType = None \<rparr>,
       error_text = None \<rparr>"

text \<open>The hat group is mounted and a model is built: the GLB asset, or the procedural
  fallback.\<close>

definition glb_scope :: hat_model_scope where
  "glb_scope = \<lparr> mounted = True, model_loaded = True, isGLBModel = True \<rparr>"

definition fallback_scope :: hat_model_scope where
  "fallback_scope = \<lparr> mounted = True, model_loaded = True, isGLBModel = False \<rparr>"

text \<open>A face is reported and a frame is rendered; then no face is reported and the next
  frame is rendered.\<close>

definition face_shown :: hat_tryon where
  "face_shown =
     run [SocketMessage (JsonObject face_message), RenderFrame glb_scope] streaming_tryon"

definition face_lost :: hat_tryon where
  "face_lost =
     run [SocketMessage (JsonObject no_face_message), RenderFrame glb_scope] face_shown"

text \<open>
  The connection drops (a retry is registered for 3 s later); the user connects by hand
  and that attempt fails at once (a second retry is registered); the user connects again,
  the socket opens, and the user disconnects; the socket's close event arrives with code
  1000.
\<close>

definition disconnected_after_open :: hat_tryon where
  "disconnected_after_open =
     run [SocketCloses 0 1006, Connect False, SocketCloses 1 1006, Connect False,
          SocketOpens 2, Disconnect, SocketCloses 2 1000] streaming_tryon"

section \<open>Reconnection with backoff\<close>

lemma onclose_timers:
  "code \<noteq> 1000 \<Longrightarrow> reconnectAttemptsRef st < MAX_RECONNECT_ATTEMPTS \<Longrightarrow>
   timers (onclose code st) =
     timers st @ [(nextTimer st, RECONNECT_DELAY * 2 ^ reconnectAttemptsRef st)]"
  by (simp add: onclose_def Let_def)

lemma onclose_timers_at_cap:
  "MAX_RECONNECT_ATTEMPTS \<le> reconnectAttemptsRef st \<Longrightarrow> timers (onclose code st) = timers st"
  by (simp add: onclose_def Let_def)

lemma onclose_timers_manual: "timers (onclose 1000 st) = timers st"
  by (simp add: onclose_def Let_def)


lemma connect_attempts: "reconnectAttemptsRef (connect throws st) = reconnectAttemptsRef st"
  by (simp add: connect_def)



lemma ws_closes_schedules:
  "s < length (sockets st) \<Longrightarrow> sockets st ! s \<noteq> CLOSED \<Longrightarrow> code \<noteq> 1000 \<Longrightarrow>
   reconnectAttemptsRef st < MAX_RECONNECT_ATTEMPTS \<Longrightarrow>
   scheduled_by st (ws_closes s code st) =
     [(nextTimer st, RECONNECT_DELAY * 2 ^ reconnectAttemptsRef st)]"
  by (simp add: ws_closes_def scheduled_by_def onclose_timers)

lemma ws_closes_at_cap:
  "MAX_RECONNECT_ATTEMPTS \<le> reconnectAttemptsRef st \<Longrightarrow> scheduled_by st (ws_closes s code st) = []"
  by (simp add: ws_closes_def scheduled_by_def onclose_timers_at_cap)











lemmas hook_evals = connect_def ws_opens_def onopen_def ws_open_def readyState_of_def
  initial_hook_def sendFrame_def on_hook_def

lemmas tryon_evals = streaming_tryon_def one_handed_over_def two_handed_over_def tick_scope_def
  initial_tryon_def processVideoFrame_start_def processVideoFrame_settle_def
  shouldProcessFrame_def scope_of_def in_flight_def initial_group_def

lemmas close_evals = ws_closes_def onclose_def close_current_def after_close_def
  scheduled_by_def timer_fires_def reconnect_callback_def disconnect_def clearTimeout_def
  ws_close_call_def Let_def MAX_RECONNECT_ATTEMPTS_def RECONNECT_DELAY_def




section \<open>Sending frames\<close>

lemma connect_sent: "sent (connect throws st) = sent st"
  by (simp add: connect_def)

lemma connect_converting: "converting (connect throws st) = converting st"
  by (simp add: connect_def)

lemma disconnect_attempts: "reconnectAttemptsRef (disconnect st) = 0"
  by (simp add: disconnect_def Let_def split: option.splits)

text \<open>
  Claim C10, as stated: if the connection has closed while the blob was being converted,
  the bytes are discarded rather than sent. It fails when a new connection has opened by
  the time the conversion finishes: the frame was handed over while socket 0 was open,
  socket 0 closed, the retry opened socket 1, and the bytes are written to socket 1.
\<close>

theorem sent_on_new_socket_counterexample:
  "wsRef connected_hook = Some 0 \<and> converting dropped_hook = [[255, 216, 255]] \<and>
   readyState_of reopened_hook 0 = Some CLOSED \<and> wsRef reopened_hook = Some 1 \<and>
   sent (arrayBuffer_resolved 0 reopened_hook) = [(1, [255, 216, 255])]"
  by (simp add: reopened_hook_def dropped_hook_def connected_hook_def hook_evals close_evals
      arrayBuffer_resolved_def remove_nth_def)

text \<open>
  Claim C10, amended. \<open>sendFrame\<close> never writes to a socket that is not open. The call
  itself writes nothing, and a failed conversion writes nothing. When the conversion of
  the blob has finished, the \<open>readyState\<close> of the socket then held in \<open>wsRef\<close> is
  checked: if that socket is \<open>OPEN\<close> the bytes are written to it, whether or not it is
  the socket that was open when \<open>sendFrame\<close> was called; if \<open>wsRef\<close> holds no socket or
  one that is not \<open>OPEN\<close>, the bytes leave the pending conversions and are not written.
\<close>

theorem sendFrame_writes_open_only:
  "sent (sendFrame c t b st) = sent st \<and>
   sent (arrayBuffer_rejected i st) = sent st \<and>
   (sent (arrayBuffer_resolved i st) = sent st \<or>
    (\<exists>s. wsRef st = Some s \<and> readyState_of st s = Some OPEN \<and> i < length (converting st) \<and>
         sent (arrayBuffer_resolved i st) = sent st @ [(s, converting st ! i)])) \<and>
   (ws_open st \<and> i < length (converting st) \<longrightarrow>
      (\<exists>s. wsRef st = Some s \<and>
           sent (arrayBuffer_resolved i st) = sent st @ [(s, converting st ! i)]) \<and>
      converting (arrayBuffer_resolved i st) = remove_nth i (converting st)) \<and>
   (\<not> ws_open st \<longrightarrow>
      sent (arrayBuffer_resolved i st) = sent st \<and>
      (i < length (converting st) \<longrightarrow>
         converting (arrayBuffer_resolved i st) = remove_nth i (converting st)))"
  by (auto simp add: sendFrame_def connect_sent arrayBuffer_rejected_def arrayBuffer_resolved_def
      ws_open_def readyState_of_def Let_def split: option.splits)

theorem sendFrame_writes_open_only_witness:
  "\<not> ws_open dropped_hook \<and> converting dropped_hook = [[255, 216, 255]] \<and>
   sent (arrayBuffer_resolved 0 dropped_hook) = [] \<and>
   converting (arrayBuffer_resolved 0 dropped_hook) = [] \<and>
   ws_open reopened_hook \<and>
   sent (arrayBuffer_resolved 0 reopened_hook) = [(1, [255, 216, 255])] \<and>
   converting (arrayBuffer_resolved 0 reopened_hook) = []"
proof -
  have a: "\<not> ws_open dropped_hook" "converting dropped_hook = [[255, 216, 255]]"
    "sent dropped_hook = []"
    by (simp_all add: dropped_hook_def connected_hook_def hook_evals close_evals)
  have b: "ws_open reopened_hook" "converting reopened_hook = [[255, 216, 255]]"
    "sent reopened_hook = []" "wsRef reopened_hook = Some 1"
    by (simp_all add: reopened_hook_def dropped_hook_def connected_hook_def hook_evals
        close_evals)
  show ?thesis
    using sendFrame_writes_open_only[of False False "[]" dropped_hook 0]
      sendFrame_writes_open_only[of False False "[]" reopened_hook 0] a b
    by (simp add: remove_nth_def)
qed

text \<open>
  Claim C5, as stated: a \<open>send\<close> while the channel is not open is a no-op that changes no
  observable state of the channel. It fails after a manual disconnect: the frame is
  dropped, but \<open>sendFrame\<close> takes its auto-reconnect branch, \<open>isConnecting\<close> becomes true
  and a second socket is created.
\<close>

theorem send_while_closed_counterexample:
  "\<not> ws_open closed_hook \<and> isConnecting closed_hook = False \<and> sockets closed_hook = [CLOSING] \<and>
   isConnecting (sendFrame False False [255, 216, 255] closed_hook) = True \<and>
   sockets (sendFrame False False [255, 216, 255] closed_hook) = [CLOSING, CONNECTING] \<and>
   wsRef (sendFrame False False [255, 216, 255] closed_hook) = Some 1"
  by (simp add: closed_hook_def connected_hook_def disconnect_def ws_opens_def connect_def sendFrame_def
        initial_hook_def ws_open_def readyState_of_def onopen_def Let_def ws_close_call_def)

text \<open>
  Claim C5, amended. While the socket held in \<open>wsRef\<close> is not open, \<open>sendFrame\<close> drops the
  frame: nothing is written and nothing is kept for later delivery. When the callback's
  \<open>isConnecting\<close> is true the call changes nothing at all; otherwise the call is exactly a
  call of \<open>connect()\<close>.
\<close>

theorem send_while_not_open:
  "\<not> ws_open st \<Longrightarrow>
   sent (sendFrame c t b st) = sent st \<and>
   converting (sendFrame c t b st) = converting st \<and>
   (c \<longrightarrow> sendFrame c t b st = st) \<and>
   (\<not> c \<longrightarrow> sendFrame c t b st = connect t st)"
  by (simp add: sendFrame_def connect_sent connect_converting)

theorem send_while_not_open_witness:
  "sent (sendFrame True False [255, 216, 255] closed_hook) = sent closed_hook \<and>
   converting (sendFrame True False [255, 216, 255] closed_hook) = converting closed_hook \<and>
   sendFrame True False [255, 216, 255] closed_hook = closed_hook \<and>
   sendFrame False False [255, 216, 255] closed_hook = connect False closed_hook"
proof -
  have a: "\<not> ws_open closed_hook"
    by (simp add: closed_hook_def connected_hook_def disconnect_def ws_opens_def connect_def
        initial_hook_def ws_open_def readyState_of_def onopen_def Let_def ws_close_call_def)
  show ?thesis
    using send_while_not_open[OF a, of True False "[255, 216, 255]"]
      send_while_not_open[OF a, of False False "[255, 216, 255]"]
    by simp
qed

section \<open>The attempt counter\<close>

text \<open>
  Claim C7, as stated: every external \<open>connect()\<close> resets the attempt counter to 0 so that
  backoff is available again. It fails in the terminal state reached after five failed
  rounds: \<open>connect()\<close> creates socket 6 and leaves the counter at 5, and when socket 6
  closes abnormally no retry is registered and the terminal error is shown again.
\<close>

theorem connect_keeps_counter_counterexample:
  "reconnectAttemptsRef exhausted_hook = 5 \<and> wsRef exhausted_hook = None \<and>
   reconnectAttemptsRef (connect False exhausted_hook) = 5 \<and>
   wsRef (connect False exhausted_hook) = Some 6 \<and>
   readyState_of (connect False exhausted_hook) 6 = Some CONNECTING \<and>
   scheduled_by (connect False exhausted_hook)
     (ws_closes 6 1006 (connect False exhausted_hook)) = [] \<and>
   error (ws_closes 6 1006 (connect False exhausted_hook)) = Some FailedToConnect"
  by (simp add: exhausted_hook_def connected_hook_def hook_evals close_evals)

text \<open>
  Claim C7, amended. Once the counter has reached \<open>MAX_RECONNECT_ATTEMPTS\<close> a close
  registers no retry. An external \<open>connect()\<close> does not reset the counter; it never
  changes it. What \<open>connect()\<close> does: nothing when the socket in \<open>wsRef\<close> is open;
  otherwise it clears the error, sets \<open>isConnecting\<close> and puts a new connecting socket
  into \<open>wsRef\<close>, or, when the socket cannot be created, records that failure. The
  counter returns to 0 when a connecting socket opens and when \<open>disconnect()\<close> is called.
  An abnormal close of a socket that finds the counter at 0 registers a retry after the
  base delay.
\<close>

theorem counter_reset_policy:
  "(MAX_RECONNECT_ATTEMPTS \<le> reconnectAttemptsRef st \<longrightarrow>
      scheduled_by st (ws_closes s code st) = []) \<and>
   reconnectAttemptsRef (connect throws st) = reconnectAttemptsRef st \<and>
   (ws_open st \<longrightarrow> connect throws st = st) \<and>
   (\<not> ws_open st \<longrightarrow>
      connect False st =
        st\<lparr> isConnecting := True, error := None, wsRef := Some (length (sockets st)),
            sockets := sockets st @ [CONNECTING] \<rparr> \<and>
      connect True st = st\<lparr> error := Some FailedToCreate, isConnecting := False \<rparr>) \<and>
   (readyState_of st s = Some CONNECTING \<longrightarrow> reconnectAttemptsRef (ws_opens s st) = 0) \<and>
   reconnectAttemptsRef (disconnect st) = 0 \<and>
   (s < length (sockets st) \<and> sockets st ! s \<noteq> CLOSED \<and> code \<noteq> 1000 \<and>
    reconnectAttemptsRef st = 0 \<longrightarrow>
      map snd (scheduled_by st (ws_closes s code st)) = [RECONNECT_DELAY])"
  by (simp add: ws_closes_at_cap connect_attempts disconnect_attempts ws_closes_schedules
      MAX_RECONNECT_ATTEMPTS_def connect_def ws_opens_def onopen_def)

theorem counter_reset_policy_witness:
  "scheduled_by (connect False exhausted_hook)
     (ws_closes 6 1006 (connect False exhausted_hook)) = [] \<and>
   reconnectAttemptsRef (connect False exhausted_hook) = 5 \<and>
   wsRef (connect False exhausted_hook) = Some 6 \<and>
   sockets (connect False exhausted_hook) =
     [CLOSED, CLOSED, CLOSED, CLOSED, CLOSED, CLOSED, CONNECTING] \<and>
   isConnecting (connect False exhausted_hook) = True \<and>
   error (connect False exhausted_hook) = None \<and>
   reconnectAttemptsRef (ws_opens 6 (connect False exhausted_hook)) = 0 \<and>
   connect False (ws_opens 6 (connect False exhausted_hook)) =
     ws_opens 6 (connect False exhausted_hook) \<and>
   reconnectAttemptsRef (disconnect exhausted_hook) = 0 \<and>
   map snd (scheduled_by (ws_opens 6 (connect False exhausted_hook))
     (ws_closes 6 1006 (ws_opens 6 (connect False exhausted_hook)))) = [3000]"
proof -
  let ?c = "connect False exhausted_hook"
  let ?o = "ws_opens 6 ?c"
  have a: "reconnectAttemptsRef exhausted_hook = 5" "\<not> ws_open exhausted_hook"
    "sockets exhausted_hook = [CLOSED, CLOSED, CLOSED, CLOSED, CLOSED, CLOSED]"
    by (simp_all add: exhausted_hook_def connected_hook_def hook_evals close_evals)
  have b: "readyState_of ?c 6 = Some CONNECTING"
    using a(2,3) by (simp add: connect_def readyState_of_def)
  have c: "ws_open ?o" "6 < length (sockets ?o)" "sockets ?o ! 6 \<noteq> CLOSED"
    using a(2,3) by (simp_all add: hook_evals)
  have d: "reconnectAttemptsRef ?c = 5"
    using a(1) by (simp add: connect_attempts)
  show ?thesis
    using counter_reset_policy[of ?c 6 1006 False]
      counter_reset_policy[of exhausted_hook 6 1006 False]
      counter_reset_policy[of ?o 6 1006 False] a b c d
    by (simp add: MAX_RECONNECT_ATTEMPTS_def RECONNECT_DELAY_def)
qed

section \<open>Backpressure\<close>

text \<open>
  Claim C1, as stated: the in-flight flag is cleared only when the send has completed or
  failed, so a second frame is never handed to the channel while the outcome of the
  previous one is outstanding. It fails when the conversion of a frame takes longer than
  one tick: after the first cycle the flag is clear although the frame is still being
  converted and nothing has been written, and the next cycle hands over a second frame.
\<close>

theorem in_flight_counterexample:
  "isProcessing one_handed_over = False \<and> in_flight one_handed_over = 1 \<and>
   sent (hook one_handed_over) = [] \<and>
   in_flight two_handed_over = 2 \<and> sent (hook two_handed_over) = []"
  by (simp add: tryon_evals hook_evals)

text \<open>
  Claim C1, amended. The processing flag is set when a cycle starts, before anything is
  handed to the channel, and a tick whose closure sees the flag set starts no cycle. The
  flag is cleared when the capture of that cycle has settled, whatever its outcome: a
  captured frame has then been passed to \<open>sendFrame\<close>, and no frame was passed if the
  capture gave none or threw. The flag does not wait for the conversion or the write of
  the frame.
\<close>

theorem processing_flag_protocol:
  "(fst (processVideoFrame_start c now st) \<longrightarrow>
      \<not> seen_isProcessing c \<and>
      isProcessing (snd (processVideoFrame_start c now st)) \<and>
      hook (snd (processVideoFrame_start c now st)) = hook st) \<and>
   (seen_isProcessing c \<longrightarrow> processVideoFrame_start c now st = (False, st)) \<and>
   (0 < capturing st \<longrightarrow>
      isProcessing (processVideoFrame_settle c throws r st) = False \<and>
      hook (processVideoFrame_settle c throws r st) =
        (case r of
           Blob frameBlob \<Rightarrow> sendFrame (seen_isConnecting c) throws frameBlob (hook st)
         | NoFrame \<Rightarrow> hook st
         | CaptureThrows \<Rightarrow> hook st))"
  by (auto simp add: processVideoFrame_start_def processVideoFrame_settle_def Let_def
      split: prod.splits bool.splits capture_result.splits)

theorem processing_flag_protocol_witness:
  "isProcessing (snd (processVideoFrame_start tick_scope 50 streaming_tryon)) \<and>
   hook (snd (processVideoFrame_start tick_scope 50 streaming_tryon)) = hook streaming_tryon \<and>
   processVideoFrame_start (tick_scope\<lparr> seen_isProcessing := True \<rparr>) 50 streaming_tryon
     = (False, streaming_tryon) \<and>
   isProcessing (processVideoFrame_settle tick_scope False NoFrame
      (snd (processVideoFrame_start tick_scope 50 streaming_tryon))) = False \<and>
   converting (hook (processVideoFrame_settle tick_scope False (Blob [255, 216, 1])
      (snd (processVideoFrame_start tick_scope 50 streaming_tryon)))) = [[255, 216, 1]]"
proof -
  let ?st = "snd (processVideoFrame_start tick_scope 50 streaming_tryon)"
  have a: "fst (processVideoFrame_start tick_scope 50 streaming_tryon)"
    by (simp add: tryon_evals hook_evals)
  have b: "0 < capturing ?st"
    by (simp add: tryon_evals hook_evals)
  have c: "seen_isProcessing (tick_scope\<lparr> seen_isProcessing := True \<rparr>)"
    by simp
  have d: "seen_isConnecting tick_scope = False"
    by (simp add: tick_scope_def)
  have e: "converting (sendFrame False False [255, 216, 1] (hook streaming_tryon)) = [[255, 216, 1]]"
    by (simp add: tryon_evals hook_evals)
  show ?thesis
    using processing_flag_protocol[of tick_scope 50 streaming_tryon False NoFrame] a
      processing_flag_protocol[of "tick_scope\<lparr> seen_isProcessing := True \<rparr>" 50 streaming_tryon False NoFrame] c
      processing_flag_protocol[of tick_scope 50 ?st False NoFrame] b
      processing_flag_protocol[of tick_scope 50 ?st False "Blob [255, 216, 1]"] d e
    by simp
qed

section \<open>Sampling rate\<close>

lemma length_filter_mono:
  "\<forall>x\<in>set xs. P x \<longrightarrow> Q x \<Longrightarrow> length (filter P xs) \<le> length (filter Q xs)"
  by (induction xs) auto

lemma spaced_later: "0 \<le> d \<Longrightarrow> spaced d prev as \<Longrightarrow> \<forall>x\<in>set as. prev + d \<le> x"
proof (induction as arbitrary: prev)
  case Nil
  then show ?case by simp
next
  case (Cons a as)
  from Cons.prems have "prev + d \<le> a" and s: "spaced d a as" by simp_all
  from Cons.IH[OF Cons.prems(1) s] have "\<forall>x\<in>set as. a + d \<le> x" .
  with \<open>prev + d \<le> a\<close> Cons.prems(1) show ?case by fastforce
qed

lemma spaced_window:
  "0 < d \<Longrightarrow> spaced d prev as \<Longrightarrow>
   length (filter (\<lambda>a. lo \<le> a \<and> a < lo + real n * d) as) \<le> n"
proof (induction as arbitrary: prev lo n)
  case Nil
  then show ?case by simp
next
  case (Cons a as)
  from Cons.prems have sp: "spaced d a as" by simp
  show ?case
  proof (cases "lo \<le> a \<and> a < lo + real n * d")
    case False
    then have "filter (\<lambda>a. lo \<le> a \<and> a < lo + real n * d) (a # as) =
               filter (\<lambda>a. lo \<le> a \<and> a < lo + real n * d) as" by simp
    with Cons.IH[OF Cons.prems(1) sp, of lo n] show ?thesis by simp
  next
    case True
    then have "0 < real n * d" by linarith
    then have "n \<noteq> 0" by (cases n) auto
    then obtain m where n: "n = Suc m" by (cases n) auto
    have later: "\<forall>x\<in>set as. a + d \<le> x"
      using spaced_later[OF _ sp] Cons.prems(1) by simp
    have "filter (\<lambda>x. lo \<le> x \<and> x < lo + real n * d) as =
          filter (\<lambda>x. a + d \<le> x \<and> x < lo + real n * d) as"
      using later True Cons.prems(1) by (intro filter_cong) auto
    also have "length \<dots> \<le>
        length (filter (\<lambda>x. a + d \<le> x \<and> x < (a + d) + real m * d) as)"
    proof (rule length_filter_mono)
      have "lo + real n * d \<le> (a + d) + real m * d"
        using True n by (simp add: algebra_simps)
      then show "\<forall>x\<in>set as. (a + d \<le> x \<and> x < lo + real n * d) \<longrightarrow>
          (a + d \<le> x \<and> x < (a + d) + real m * d)"
        by auto
    qed
    also have "\<dots> \<le> m"
      using Cons.IH[OF Cons.prems(1) sp, of "a + d" m] .
    finally have "length (filter (\<lambda>x. lo \<le> x \<and> x < lo + real n * d) as) \<le> m" .
    with True n show ?thesis by simp
  qed
qed


lemma step_limiter:
  "\<forall>c now. e \<noteq> Tick c now \<Longrightarrow> frameRateLimiterRef (step e st) = frameRateLimiterRef st"
  by (cases e)
     (simp_all add: processVideoFrame_settle_def on_hook_def message_arrives_def
        lastMessage_effect_def render_frame_def Let_def
        split: capture_result.splits inbound.splits option.splits sum.splits)

lemma start_limiter:
  "frameRateLimiterRef (snd (processVideoFrame_start c now st)) =
     (if fst (processVideoFrame_start c now st)
      then (frameRateLimiterRef st)\<lparr> lastFrameTime := now \<rparr>
      else frameRateLimiterRef st)"
  by (simp add: processVideoFrame_start_def shouldProcessFrame_def)

lemma start_elapsed:
  "fst (processVideoFrame_start c now st) \<Longrightarrow>
   1000 / targetFPS (frameRateLimiterRef st) \<le> now - lastFrameTime (frameRateLimiterRef st) \<and>
   videoRef st \<and> seen_isStreaming c \<and> seen_isConnected c \<and> \<not> seen_isProcessing c"
  by (simp add: processVideoFrame_start_def shouldProcessFrame_def split: if_splits)

lemma accepted_spaced:
  "spaced (1000 / targetFPS (frameRateLimiterRef st)) (lastFrameTime (frameRateLimiterRef st))
     (accepted es st)"
proof (induction es arbitrary: st)
  case Nil
  then show ?case by simp
next
  case (Cons e es)
  show ?case
  proof (cases "\<exists>c now. e = Tick c now")
    case True
    then obtain c now where e: "e = Tick c now" by blast
    let ?st' = "snd (processVideoFrame_start c now st)"
    show ?thesis
    proof (cases "fst (processVideoFrame_start c now st)")
      case True
      then have l: "frameRateLimiterRef ?st' = (frameRateLimiterRef st)\<lparr> lastFrameTime := now \<rparr>"
        by (simp add: start_limiter)
      from Cons.IH[of ?st'] have "spaced (1000 / targetFPS (frameRateLimiterRef st)) now (accepted es ?st')"
        by (simp add: l)
      moreover have "lastFrameTime (frameRateLimiterRef st) + 1000 / targetFPS (frameRateLimiterRef st) \<le> now"
        using start_elapsed[OF True] by linarith
      ultimately show ?thesis using True e by simp
    next
      case False
      then have l: "frameRateLimiterRef ?st' = frameRateLimiterRef st"
        by (simp add: start_limiter)
      from Cons.IH[of ?st'] show ?thesis using False e by (simp add: l)
    qed
  next
    case False
    then have l: "frameRateLimiterRef (step e st) = frameRateLimiterRef st"
      by (intro step_limiter) blast
    have "accepted (e # es) st = accepted es (step e st)"
      using False by (cases e) simp_all
    with Cons.IH[of "step e st"] show ?thesis by (simp add: l)
  qed
qed

text \<open>
  Claim C6, as stated: a cycle is allowed only when no frame is in flight. It fails in the
  state reached after one cycle whose frame is still being converted: the socket is open,
  one frame is in flight, nothing has been written, and the closure of the current render
  starts a new cycle at the next tick.
\<close>

theorem tick_while_in_flight_counterexample:
  "in_flight one_handed_over = 1 \<and> sent (hook one_handed_over) = [] \<and>
   ws_open (hook one_handed_over) \<and>
   fst (processVideoFrame_start (scope_of one_handed_over) 100 one_handed_over) = True"
  by (simp add: tryon_evals hook_evals)

text \<open>
  Claim C6, amended. With a target rate of \<open>n\<close> frames per second, whatever events
  happen and in whatever order, at most \<open>n\<close> cycles are started in any one-second window \<open>[t, t + 1000)\<close>
  (each tick starts at most one). A tick starts a cycle only when at least \<open>1000 / n\<close> ms
  have passed since the last tick that started one, the video element is there, and the
  tick's closure sees \<open>isStreaming\<close> and \<open>isConnected\<close> true and \<open>isProcessing\<close> false.
  Frames whose send is outstanding do not hold a cycle back.
\<close>

theorem sampling_rate_and_gate:
  "0 < n \<Longrightarrow> targetFPS (frameRateLimiterRef st) = real n \<Longrightarrow>
   length (filter (\<lambda>a. t \<le> a \<and> a < t + 1000) (accepted es st)) \<le> n \<and>
   (fst (processVideoFrame_start c now st) \<longrightarrow>
      1000 / real n \<le> now - lastFrameTime (frameRateLimiterRef st) \<and>
      videoRef st \<and> seen_isStreaming c \<and> seen_isConnected c \<and> \<not> seen_isProcessing c)"
proof -
  assume n: "0 < n" and fps: "targetFPS (frameRateLimiterRef st) = real n"
  have d: "0 < 1000 / real n" using n by simp
  have "spaced (1000 / real n) (lastFrameTime (frameRateLimiterRef st)) (accepted es st)"
    using accepted_spaced[of st es] fps by simp
  from spaced_window[OF d this, of t n]
  have "length (filter (\<lambda>a. t \<le> a \<and> a < t + 1000) (accepted es st)) \<le> n"
    using n by simp
  moreover have "fst (processVideoFrame_start c now st) \<longrightarrow>
      1000 / real n \<le> now - lastFrameTime (frameRateLimiterRef st) \<and>
      videoRef st \<and> seen_isStreaming c \<and> seen_isConnected c \<and> \<not> seen_isProcessing c"
    using start_elapsed[of c now st] fps by simp
  ultimately show ?thesis by simp
qed

theorem sampling_rate_and_gate_witness:
  "accepted fast_ticks streaming_tryon = [50, 100, 150] \<and>
   length (filter (\<lambda>a. 0 \<le> a \<and> a < 0 + 1000) (accepted fast_ticks streaming_tryon)) \<le> 20 \<and>
   fst (processVideoFrame_start tick_scope 50 streaming_tryon) \<and>
   1000 / real 20 \<le> 50 - lastFrameTime (frameRateLimiterRef streaming_tryon) \<and>
   videoRef streaming_tryon"
proof -
  have a: "targetFPS (frameRateLimiterRef streaming_tryon) = real 20"
    by (simp add: tryon_evals hook_evals)
  have b: "fst (processVideoFrame_start tick_scope 50 streaming_tryon)"
    by (simp add: tryon_evals hook_evals)
  have c: "accepted fast_ticks streaming_tryon = [50, 100, 150]"
    by (simp add: fast_ticks_def tryon_evals hook_evals)
  show ?thesis
    using sampling_rate_and_gate[of 20 streaming_tryon 0 fast_ticks tick_scope 50] a b c
    by simp
qed

section \<open>Inbound messages and the hat in the scene\<close>

lemmas scene_evals = face_shown_def face_lost_def face_message_def no_face_message_def
  empty_message_def hatless_message_def incomplete_message_def sample_pose_def large_pose_def
  glb_scope_def fallback_scope_def message_arrives_def onmessage_def lastMessage_effect_def
  render_frame_def HatScene_render_def complete_def payload_of_def useFrame_def preset_def
  modelType_or_default_def Let_def

lemma incomplete_iff:
  "(complete raw = None) =
     (hat_position raw = None \<or> hat_rotation raw = None \<or> hat_scale raw = None)"
  by (simp add: complete_def split: option.splits)

lemma complete_payload_of: "complete (payload_of p) = Some p"
  by (simp add: complete_def payload_of_def)

text \<open>
  Claim C9, as stated: a message that is undecodable or lacks required fields is dropped
  and the previous hat pose and visibility stay. It fails for decodable messages that
  lack fields: after a face has been shown, the object \<open>{}\<close> clears the pose and sets
  \<open>faceDetected\<close> to \<open>undefined\<close>; a message with \<open>face_detected\<close> true and no \<open>hat\<close>
  clears the pose as well; and a message whose \<open>hat\<close> lacks \<open>rotation\<close> replaces the pose
  by that payload, on which the render of \<open>HatScene\<close> throws.
\<close>

theorem missing_fields_counterexample:
  "hatPose face_shown = Some (payload_of sample_pose) \<and>
   faceDetected face_shown = Some True \<and>
   hatPose (message_arrives (JsonObject empty_message) face_shown) = None \<and>
   faceDetected (message_arrives (JsonObject empty_message) face_shown) = None \<and>
   hatPose (message_arrives (JsonObject hatless_message) face_shown) = None \<and>
   hatPose (message_arrives (JsonObject incomplete_message) face_shown) =
     hat incomplete_message \<and>
   HatScene_render (message_arrives (JsonObject incomplete_message) face_shown) = Inl TypeError"
  by (simp add: scene_evals tryon_evals hook_evals)

text \<open>
  Claim C9, amended. An inbound text that is not decodable JSON changes no state at all,
  so the previous hat pose and visibility stay. The JSON values \<open>null\<close>, 0, \<open>false\<close> and
  the empty string are stored as \<open>lastMessage\<close> and leave pose and visibility unchanged
  too. No message changes the hat group of the scene by itself. Every other decodable
  message is processed whatever fields it lacks: it becomes \<open>lastMessage\<close>,
  \<open>faceDetected\<close> takes its \<open>face_detected\<close> field as it is (\<open>undefined\<close> when absent),
  and the hat pose becomes its \<open>hat\<close> field when \<open>face_detected\<close> is true and \<open>null\<close>
  otherwise. A \<open>hat\<close> that lacks \<open>position\<close>, \<open>rotation\<close> or \<open>scale\<close> is stored like
  any other, and the render of \<open>HatScene\<close> that follows raises a \<open>TypeError\<close>.
\<close>

theorem inbound_message_handling:
  "message_arrives Undecodable st = st \<and>
   (d = JsonNull \<or> d = JsonFalsy \<longrightarrow>
      hatPose (message_arrives d st) = hatPose st \<and>
      faceDetected (message_arrives d st) = faceDetected st \<and>
      lastMessage (hook (message_arrives d st)) = None) \<and>
   hatGroup (message_arrives d st) = hatGroup st \<and>
   lastMessage (hook (message_arrives (JsonObject m) st)) = Some m \<and>
   faceDetected (message_arrives (JsonObject m) st) = face_detected m \<and>
   hatPose (message_arrives (JsonObject m) st) =
     (if face_detected m = Some True then hat m else None) \<and>
   (face_detected m = Some True \<and> hat m = Some raw \<and>
    (hat_position raw = None \<or> hat_rotation raw = None \<or> hat_scale raw = None) \<longrightarrow>
      HatScene_render (message_arrives (JsonObject m) st) = Inl TypeError)"
proof -
  have "face_detected m = Some True \<and> hat m = Some raw \<and> complete raw = None \<longrightarrow>
      HatScene_render (message_arrives (JsonObject m) st) = Inl TypeError"
    by (simp add: HatScene_render_def message_arrives_def onmessage_def lastMessage_effect_def
        Let_def)
  then have "face_detected m = Some True \<and> hat m = Some raw \<and>
    (hat_position raw = None \<or> hat_rotation raw = None \<or> hat_scale raw = None) \<longrightarrow>
      HatScene_render (message_arrives (JsonObject m) st) = Inl TypeError"
    by (simp only: incomplete_iff)
  moreover have "message_arrives Undecodable st = st \<and>
   (d = JsonNull \<or> d = JsonFalsy \<longrightarrow>
      hatPose (message_arrives d st) = hatPose st \<and>
      faceDetected (message_arrives d st) = faceDetected st \<and>
      lastMessage (hook (message_arrives d st)) = None) \<and>
   hatGroup (message_arrives d st) = hatGroup st \<and>
   lastMessage (hook (message_arrives (JsonObject m) st)) = Some m \<and>
   faceDetected (message_arrives (JsonObject m) st) = face_detected m \<and>
   hatPose (message_arrives (JsonObject m) st) =
     (if face_detected m = Some True then hat m else None)"
    by (cases d) (simp_all add: message_arrives_def onmessage_def lastMessage_effect_def Let_def)
  ultimately show ?thesis by simp
qed

theorem inbound_message_handling_witness:
  "message_arrives Undecodable face_shown = face_shown \<and>
   hatPose (message_arrives JsonFalsy face_shown) = Some (payload_of sample_pose) \<and>
   faceDetected (message_arrives JsonFalsy face_shown) = Some True \<and>
   faceDetected (message_arrives (JsonObject hatless_message) face_shown) = Some True \<and>
   hatPose (message_arrives (JsonObject hatless_message) face_shown) = None \<and>
   hatPose (message_arrives (JsonObject incomplete_message) face_shown) =
     hat incomplete_message \<and>
   HatScene_render (message_arrives (JsonObject incomplete_message) face_shown) = Inl TypeError"
proof -
  let ?raw = "\<lparr> hat_position = Some (Vec3 0.5 0.3 0.05), hat_rotation = None,
                 hat_scale = Some 1.2, hat_modelType = None \<rparr>"
  have a: "hatPose face_shown = Some (payload_of sample_pose)"
    "faceDetected face_shown = Some True"
    by (simp_all add: scene_evals tryon_evals hook_evals)
  have b: "face_detected hatless_message = Some True" "hat hatless_message = None"
    by (simp_all add: hatless_message_def)
  have c: "face_detected incomplete_message = Some True" "hat incomplete_message = Some ?raw"
    "hat_rotation ?raw = None"
    by (simp_all add: incomplete_message_def)
  show ?thesis
    using inbound_message_handling[of face_shown JsonFalsy hatless_message ?raw]
      inbound_message_handling[of face_shown JsonFalsy incomplete_message ?raw] a b c
    by simp
qed

text \<open>
  Claim C4, as stated: the offset and the scale multiplier are selected by \<open>modelType\<close>.
  It fails when the procedural fallback geometry is in use: the same \<open>large_hat\<close> pose is
  scaled by 0.8 and offset by -1 with the GLB asset, and scaled by 0.25 and offset by
  -0.3 with the fallback.
\<close>

theorem preset_by_model_type_counterexample:
  "g_scale (useFrame glb_scope (Some large_pose) True initial_group) = Vec3 0.8 0.8 0.8 \<and>
   g_scale (useFrame fallback_scope (Some large_pose) True initial_group) = Vec3 0.25 0.25 0.25 \<and>
   vy (g_position (useFrame glb_scope (Some large_pose) True initial_group)) = - 1 \<and>
   vy (g_position (useFrame fallback_scope (Some large_pose) True initial_group)) = - 0.3"
  by (simp add: scene_evals initial_group_def)

text \<open>
  Claim C4, amended. For a message with \<open>face_detected\<close> true and a complete pose, once
  the hat group is mounted and a model is built, the next frame callback writes to the
  group, whatever it held before: position \<open>((x - 0.5) * 4, (y - 0.5) * 3 + offset, max z 0)\<close>,
  rotation \<open>0.8\<close> times the message's rotation on each axis, scale \<open>scale * multiplier\<close>
  on each axis, and visible. With the GLB asset the offset and multiplier are chosen by
  \<open>modelType\<close> (\<open>large_hat\<close>: -1 and 0.8; \<open>small_hat\<close>: -0.2 and 0.02; anything else or
  none: -0.2 and 0.5); with the fallback geometry they are -0.3 and 0.25 for every
  \<open>modelType\<close>.
\<close>

theorem pose_mapping:
  "face_detected m = Some True \<Longrightarrow> hat m = Some (payload_of p) \<Longrightarrow>
   mounted sc \<Longrightarrow> model_loaded sc \<Longrightarrow>
   g' = hatGroup (render_frame sc (message_arrives (JsonObject m) st)) \<Longrightarrow>
   t = modelType_or_default p \<Longrightarrow>
   off = (if isGLBModel sc
          then (if t = ''large_hat'' then - 1.0 else if t = ''small_hat'' then - 0.2 else - 0.2)
          else - 0.3) \<Longrightarrow>
   mult = (if isGLBModel sc
           then (if t = ''large_hat'' then 0.8 else if t = ''small_hat'' then 0.02 else 0.5)
           else 0.25) \<Longrightarrow>
   g_position g' = Vec3 ((vx (position p) - 0.5) * 4) ((vy (position p) - 0.5) * 3 + off)
                        (max (vz (position p)) 0) \<and>
   g_rotation g' = Vec3 (vx (rotation p) * 0.8) (vy (rotation p) * 0.8) (vz (rotation p) * 0.8) \<and>
   g_scale g' = Vec3 (scale p * mult) (scale p * mult) (scale p * mult) \<and>
   g_visible g' = True"
  by (simp add: render_frame_def HatScene_render_def complete_payload_of message_arrives_def
      onmessage_def lastMessage_effect_def useFrame_def preset_def Let_def)

theorem pose_mapping_witness:
  "g_position (hatGroup (render_frame glb_scope
      (message_arrives (JsonObject face_message) streaming_tryon))) = Vec3 0 (- 0.8) 0.05 \<and>
   g_rotation (hatGroup (render_frame glb_scope
      (message_arrives (JsonObject face_message) streaming_tryon))) = Vec3 0.08 (- 0.04) 0.016 \<and>
   g_scale (hatGroup (render_frame glb_scope
      (message_arrives (JsonObject face_message) streaming_tryon))) = Vec3 0.6 0.6 0.6 \<and>
   g_visible (hatGroup (render_frame glb_scope
      (message_arrives (JsonObject face_message) streaming_tryon))) = True"
proof -
  have a: "face_detected face_message = Some True"
    "hat face_message = Some (payload_of sample_pose)"
    by (simp_all add: face_message_def)
  have b: "mounted glb_scope" "model_loaded glb_scope" "isGLBModel glb_scope"
    by (simp_all add: glb_scope_def)
  have c: "modelType_or_default sample_pose = ''default''"
    by (simp add: modelType_or_default_def sample_pose_def)
  show ?thesis
    using pose_mapping[OF a b(1) b(2) refl refl refl refl, of streaming_tryon] b(3) c
    by (simp add: sample_pose_def)
qed

text \<open>
  Claim C3. The overlay is to be invisible whenever the latest message reports no face.
  The code does not do that: after a face has been shown and then lost, \<open>faceDetected\<close>
  is false and the pose is \<open>null\<close>, yet the frame callback has no branch for this case, so
  the hat group keeps \<open>visible = true\<close> and the model, at the last pose.
\<close>

theorem hat_stays_visible:
  "faceDetected face_shown = Some True \<and> g_visible (hatGroup face_shown) = True \<and>
   faceDetected face_lost = Some False \<and> hatPose face_lost = None \<and>
   g_visible (hatGroup face_lost) = True \<and> has_model (hatGroup face_lost) = True \<and>
   hatGroup face_lost = hatGroup face_shown"
  by (simp add: scene_evals tryon_evals hook_evals)

section \<open>Manual disconnect\<close>

text \<open>
  Claim C8. A manual disconnect is to cancel any pending reconnect timer so that nothing
  reconnects until \<open>connect()\<close> is called again. The code cancels only the timer whose
  handle is in \<open>reconnectTimeoutRef\<close>: after the disconnect (which closes the open socket
  with code 1000, and whose close event registers nothing) the retry registered by the
  first drop is still pending, and when it expires it opens a new socket.
\<close>

theorem timer_survives_disconnect:
  "isConnected (hook disconnected_after_open) = False \<and>
   closeCalls (hook disconnected_after_open) = [(2, 1000)] \<and>
   reconnectTimeoutRef (hook disconnected_after_open) = None \<and>
   timers (hook disconnected_after_open) = [(1, 3000)] \<and>
   wsRef (hook (step (TimerFires 1 False) disconnected_after_open)) = Some 3 \<and>
   sockets (hook (step (TimerFires 1 False) disconnected_after_open)) =
     [CLOSED, CLOSED, CLOSED, CONNECTING] \<and>
   isConnecting (hook (step (TimerFires 1 False) disconnected_after_open)) = True"
  by (simp add: disconnected_after_open_def tryon_evals hook_evals ws_closes_def onclose_def
      disconnect_def timer_fires_def reconnect_callback_def clearTimeout_def ws_close_call_def
      Let_def MAX_RECONNECT_ATTEMPTS_def RECONNECT_DELAY_def)

end
